theory Spec2Isabelle
  imports Main "HOL-Library.AList"
begin

section \<open>The Python bridge of neuropod\<close>

text \<open>
  A shallow embedding of \<^verbatim>\<open>source/neuropod/backends/python_bridge/python_bridge.cc\<close>.
  The file drives an embedded Python interpreter through pybind11. Everything the C++ code
  does to the process and to the interpreter is made explicit as a \<open>world\<close> that each
  function takes and returns; every exception the code can let escape is a value \<open>Inl e\<close>.
\<close>

subsection \<open>Strings that cross a C interface\<close>

text \<open>
  \<^verbatim>\<open>std::string::c_str()\<close> hands a NUL-terminated buffer to a C function, which reads it up
  to the first NUL byte. A \<^verbatim>\<open>std::string\<close> may hold NUL bytes; a C string may not.
\<close>

definition c_str :: "string \<Rightarrow> string" where
  "c_str s = takeWhile (\<lambda>c. c \<noteq> CHR 0x00) s"

definition cstring :: "string \<Rightarrow> bool" where
  "cstring s = (CHR 0x00 \<notin> set s)"

subsection \<open>Errors, events and the world\<close>

type_synonym handle = nat

text \<open>
  The exceptions of the file: \<^verbatim>\<open>py::error_already_set\<close> (an exception raised inside the
  interpreter, surfaced by pybind11) and the \<^verbatim>\<open>std::runtime_error\<close> that the macro
  \<^verbatim>\<open>NEUROPOD_ERROR\<close> throws with the message streamed into it. Dereferencing an empty
  \<^verbatim>\<open>std::unique_ptr\<close> is undefined in C++; the model makes it the error
  \<open>null_pointer_dereference\<close>, which no object built by the constructor can reach.
\<close>

datatype error = error_already_set string | runtime_error string | null_pointer_dereference

text \<open>The C++ variables of the file that hold a reference to an interpreter object.\<close>

datatype pyvar =
    V_load_neuropod
  | V_maybe_convert_bindings_types
  | V_neuropod
  | V_out
  | V_model_outputs_raw
  | V_model_outputs

text \<open>
  Operations that touch the interpreter. Expression temporaries are part of the operation
  that produces them; \<open>Drop v\<close> is the destruction of the named variable or member \<open>v\<close>
  (a \<^verbatim>\<open>Py_DECREF\<close>).
\<close>

datatype pyop =
    DictNew
  | StrNew string
  | DictSetItem string
  | ImportAttr string string
  | CallLoad handle string
  | CallInfer handle
  | CallConvert handle
  | TensorToNumpy
  | FromNumpyDict
  | Drop pyvar

text \<open>
  The trace records, for every interpreter operation, whether the calling thread held the
  interpreter lock (the GIL) at that moment. \<open>Own v\<close> is the moment variable \<open>v\<close> takes
  ownership of a reference (a pointer move on the native side).
\<close>

datatype event =
    GilAcquire
  | GilRelease
  | Dlopen string
  | InitializeInterpreter
  | EnsureLocal string
  | Own pyvar
  | Py pyop bool

text \<open>
  \<open>environ\<close> is the process environment, \<open>py_initialized\<close> is \<^verbatim>\<open>Py_IsInitialized()\<close>,
  \<open>gil_held\<close> says whether the calling thread holds the GIL, \<open>interp\<close> is the state of
  the interpreter and of the model loader (opaque to the bridge). \<open>owned h\<close> counts the
  native wrappers that own a reference to the object \<open>h\<close>, and \<open>faulted\<close> is raised when
  a reference that no wrapper owns is released.
\<close>

record 's world =
  environ :: "string \<rightharpoonup> string"
  py_initialized :: bool
  gil_held :: bool
  owned :: "handle \<Rightarrow> nat"
  faulted :: bool
  interp :: 's
  trace :: "event list"

definition emit :: "event \<Rightarrow> 's world \<Rightarrow> 's world" where
  "emit e w = w\<lparr>trace := trace w @ [e]\<rparr>"

definition py :: "pyop \<Rightarrow> 's world \<Rightarrow> 's world" where
  "py p w = emit (Py p (gil_held w)) w"

text \<open>
  \<^verbatim>\<open>py::gil_scoped_acquire\<close>: the constructor takes the lock if the thread does not hold it
  and the destructor puts the thread back in the state it was in. \<^verbatim>\<open>py::gil_scoped_release\<close>
  gives the lock up.
\<close>

definition gil_scoped_acquire :: "'s world \<Rightarrow> bool \<times> 's world" where
  "gil_scoped_acquire w = (gil_held w, (emit GilAcquire w)\<lparr>gil_held := True\<rparr>)"

definition gil_scoped_acquire_end :: "bool \<Rightarrow> 's world \<Rightarrow> 's world" where
  "gil_scoped_acquire_end was_held w = (emit GilRelease w)\<lparr>gil_held := was_held\<rparr>"

datatype gil_scoped_release = Gil_scoped_release

definition make_gil_scoped_release :: "'s world \<Rightarrow> gil_scoped_release \<times> 's world" where
  "make_gil_scoped_release w = (Gil_scoped_release, (emit GilRelease w)\<lparr>gil_held := False\<rparr>)"

text \<open>Construction and destruction of a \<^verbatim>\<open>py::object\<close> held in variable \<open>v\<close>.\<close>

definition hold :: "pyvar \<Rightarrow> 's world \<Rightarrow> 's world" where
  "hold v w = emit (Own v) w"

definition own :: "pyvar \<Rightarrow> handle \<Rightarrow> 's world \<Rightarrow> 's world" where
  "own v h w = (hold v w)\<lparr>owned := (owned w)(h := Suc (owned w h))\<rparr>"

definition drop_ref :: "pyvar \<Rightarrow> handle \<Rightarrow> 's world \<Rightarrow> 's world" where
  "drop_ref v h w =
     (if owned w h = 0 then (py (Drop v) w)\<lparr>faulted := True\<rparr>
      else (py (Drop v) w)\<lparr>owned := (owned w)(h := owned w h - 1)\<rparr>)"

text \<open>\<^verbatim>\<open>std::unique_ptr<py::object>::reset()\<close>: nothing happens on an empty pointer.\<close>

definition reset :: "pyvar \<Rightarrow> handle option \<Rightarrow> 's world \<Rightarrow> 's world" where
  "reset v p w = (case p of None \<Rightarrow> w | Some h \<Rightarrow> drop_ref v h w)"

subsection \<open>\<^verbatim>\<open>set_python_path\<close> (lines 22 to 38)\<close>

text \<open>
  The stream receives every directory followed by a colon, then the current value of
  \<^verbatim>\<open>PYTHONPATH\<close> if \<^verbatim>\<open>getenv\<close> finds one; \<^verbatim>\<open>setenv\<close> with overwrite flag 1 stores the
  C string of the result.
\<close>

definition python_path_stream :: "string list \<Rightarrow> string option \<Rightarrow> string" where
  "python_path_stream paths_to_add existing =
     concat (map (\<lambda>dir. dir @ '':'') paths_to_add) @
     (case existing of None \<Rightarrow> [] | Some e \<Rightarrow> e)"

definition set_python_path :: "string list \<Rightarrow> 's world \<Rightarrow> 's world" where
  "set_python_path paths_to_add w =
     w\<lparr>environ := (environ w)(''PYTHONPATH'' \<mapsto>
          c_str (python_path_stream paths_to_add (environ w ''PYTHONPATH'')))\<rparr>"

subsection \<open>\<^verbatim>\<open>maybe_initialize\<close> (lines 41 to 74)\<close>

text \<open>
  What the build and the dynamic loader decide: whether \<^verbatim>\<open>__APPLE__\<close> is defined, the
  value of the macro \<^verbatim>\<open>PYTHON_VERSION\<close>, whether \<^verbatim>\<open>dlopen\<close> with \<^verbatim>\<open>RTLD_NOLOAD\<close> finds the
  named library, and the text \<^verbatim>\<open>dlerror()\<close> gives after a failure.
\<close>

record platform =
  apple :: bool
  python_version :: string
  dlopen_finds :: "string \<Rightarrow> bool"
  dlerror :: string

definition PYTHON_LIB_NAME :: "platform \<Rightarrow> string" where
  "PYTHON_LIB_NAME pl = ''libpython'' @ python_version pl @ ''.so''"

text \<open>
  Modelled from the spec: the macro \<^verbatim>\<open>NEUROPOD_ERROR\<close> is defined in a header that is not
  part of the sources at hand. The spec calls the failure fatal, aborting with a descriptive
  error; the macro is taken to throw a \<^verbatim>\<open>std::runtime_error\<close> that carries the text
  streamed into it at line 58.
\<close>

definition promotion_error :: "platform \<Rightarrow> error" where
  "promotion_error pl =
     runtime_error (''Failed to promote libpython to RTLD_GLOBAL. Error from dlopen: '' @ dlerror pl)"

text \<open>
  \<^verbatim>\<open>py::initialize_interpreter()\<close> starts the interpreter; the thread that starts it holds
  the GIL afterwards.
\<close>

definition initialize_interpreter :: "'s world \<Rightarrow> 's world" where
  "initialize_interpreter w = (emit InitializeInterpreter w)\<lparr>py_initialized := True, gil_held := True\<rparr>"

definition use_virtualenv :: "'s world \<Rightarrow> 's world" where
  "use_virtualenv w =
     (case environ w ''VIRTUAL_ENV'' of
        None \<Rightarrow> w
      | Some venv_path \<Rightarrow> w\<lparr>environ := (environ w)(''PYTHONHOME'' \<mapsto> venv_path)\<rparr>)"

text \<open>
  Lines 62 to 73, which every path that starts the interpreter runs: \<^verbatim>\<open>PYTHONHOME\<close> is set
  from \<^verbatim>\<open>VIRTUAL_ENV\<close> when that is present, the interpreter is started, and the lock it
  leaves with the thread is given up by the token that is returned.
\<close>

definition start_interpreter :: "'s world \<Rightarrow> (error + gil_scoped_release option) \<times> 's world" where
  "start_interpreter w =
     (let (tok, w') = make_gil_scoped_release (initialize_interpreter (use_virtualenv w))
      in (Inr (Some tok), w'))"

definition maybe_initialize ::
  "platform \<Rightarrow> 's world \<Rightarrow> (error + gil_scoped_release option) \<times> 's world" where
  "maybe_initialize pl w =
     (if py_initialized w then (Inr None, w)
      else if apple pl then start_interpreter w
      else
        (let w1 = emit (Dlopen (PYTHON_LIB_NAME pl)) w
         in if \<not> dlopen_finds pl (PYTHON_LIB_NAME pl) then (Inl (promotion_error pl), w1)
            else start_interpreter w1))"

text \<open>
  Line 79: the file-level static \<^verbatim>\<open>gil_release\<close> is initialised with \<^verbatim>\<open>maybe_initialize()\<close>
  when the backend is loaded, before any constructor of the file can run.
\<close>

definition gil_release ::
  "platform \<Rightarrow> 's world \<Rightarrow> (error + gil_scoped_release option) \<times> 's world" where
  "gil_release pl w = maybe_initialize pl w"

subsection \<open>The collaborators\<close>

text \<open>
  What the bridge calls but does not define: the interpreter (module import and attribute
  lookup, the loader's \<^verbatim>\<open>load_neuropod\<close>, the model's \<^verbatim>\<open>infer\<close>, the helper
  \<^verbatim>\<open>maybe_convert_bindings_types\<close>, each followed by the cast pybind11 applies to the
  result), the native loader's \<^verbatim>\<open>ensure_local\<close>, and the tensor conversions of
  \<^verbatim>\<open>python_bindings.hh\<close>. Calls into the interpreter and the loader may change the
  opaque state \<open>'s\<close>; every one of them may raise, be it in converting the arguments, in
  the call or in the cast of the result. A dictionary is the list of its items in insertion
  order, its keys the text of the Python strings.

  \<open>py_str\<close> is \<^verbatim>\<open>py::str(const char *)\<close>: the interpreter decodes the C string as UTF-8
  and pybind11 throws when it cannot (which byte strings decode depends on the version of
  the interpreter); on success it is the key the dictionary will see.

  \<open>assign_rhs_first\<close> is what the compiler decides where the language leaves it open:
  whether the right-hand side of an assignment through an overloaded \<^verbatim>\<open>operator=\<close> is
  evaluated before the left-hand side (as C++17 prescribes) or after it.
\<close>

type_synonym 'a pydict = "(string \<times> 'a) list"

record ('t, 'a, 'alloc, 's) collaborators =
  import_attr :: "string \<Rightarrow> string \<Rightarrow> 's \<Rightarrow> (error + handle) \<times> 's"
  call_load_neuropod :: "handle \<Rightarrow> string \<Rightarrow> 's \<Rightarrow> (error + handle) \<times> 's"
  call_infer :: "handle \<Rightarrow> 'a pydict \<Rightarrow> 's \<Rightarrow> (error + 'a pydict) \<times> 's"
  call_convert :: "handle \<Rightarrow> 'a pydict \<Rightarrow> 's \<Rightarrow> (error + 'a pydict) \<times> 's"
  ensure_local :: "string \<Rightarrow> 's \<Rightarrow> (error + string) \<times> 's"
  py_str :: "string \<Rightarrow> error + string"
  tensor_to_numpy :: "'t option \<Rightarrow> error + 'a"
  from_numpy :: "'alloc \<Rightarrow> string \<Rightarrow> 'a \<Rightarrow> error + 't"
  default_allocator :: 'alloc
  assign_rhs_first :: bool

definition run :: "('s \<Rightarrow> 'r \<times> 's) \<Rightarrow> 's world \<Rightarrow> 'r \<times> 's world" where
  "run f w = (let (r, s) = f (interp w) in (r, w\<lparr>interp := s\<rparr>))"

text \<open>
  Modelled from the spec: \<^verbatim>\<open>from_numpy_dict\<close> is declared in
  \<^verbatim>\<open>neuropod/bindings/python_bindings.hh\<close>, which is not part of the sources at hand. The
  spec says of it: convert each resulting entry back to a native tensor via the codec
  (\<open>from_interpreter(name, interpreter_array, allocator)\<close>) using the given allocator. An
  entry the codec rejects fails the whole conversion.
\<close>

fun from_numpy_dict ::
  "('alloc \<Rightarrow> string \<Rightarrow> 'a \<Rightarrow> error + 't) \<Rightarrow> 'alloc \<Rightarrow> 'a pydict \<Rightarrow> error + (string \<times> 't) list" where
  "from_numpy_dict f alloc [] = Inr []"
| "from_numpy_dict f alloc ((k, a) # items) =
     (case f alloc k a of
        Inl e \<Rightarrow> Inl e
      | Inr t \<Rightarrow>
          (case from_numpy_dict f alloc items of
             Inl e \<Rightarrow> Inl e
           | Inr ts \<Rightarrow> Inr ((k, t) # ts)))"

subsection \<open>\<^verbatim>\<open>PythonBridge\<close>: constructor (lines 83 to 107) and destructor (lines 109 to 117)\<close>

text \<open>
  The object: the path its base class builds the loader from, the allocator its base class
  provides, and the two \<^verbatim>\<open>std::unique_ptr<py::object>\<close> members \<^verbatim>\<open>neuropod_\<close> and
  \<^verbatim>\<open>maybe_convert_bindings_types_\<close> (a name cannot end in an underscore here).
\<close>

record 'alloc PythonBridge =
  neuropod_path :: string
  tensor_allocator :: 'alloc
  neuropod :: "handle option"
  maybe_convert_bindings_types :: "handle option"

text \<open>
  When the constructor body throws, C++ first destroys the locals of the body (the scoped
  lock among them) and then the members of the object that never came to be. The order of
  the two members follows their declaration in \<^verbatim>\<open>python_bridge.hh\<close>, which is not at hand;
  wherever the body can throw \<^verbatim>\<open>neuropod_\<close> is still empty, so the order has no effect.
\<close>

definition destroy_members :: "'alloc PythonBridge \<Rightarrow> 's world \<Rightarrow> 's world" where
  "destroy_members b w =
     reset V_maybe_convert_bindings_types (maybe_convert_bindings_types b)
       (reset V_neuropod (neuropod b) w)"

definition PythonBridge_ctor ::
  "('t, 'a, 'alloc, 's) collaborators \<Rightarrow> string \<Rightarrow> 'opt \<Rightarrow> string list \<Rightarrow> 's world
     \<Rightarrow> (error + 'alloc PythonBridge) \<times> 's world" where
  "PythonBridge_ctor ext path options python_path_additions w0 =
     (let this = \<lparr>neuropod_path = path, tensor_allocator = default_allocator ext,
                  neuropod = None, maybe_convert_bindings_types = None\<rparr>;
          w1 = set_python_path python_path_additions w0;
          (was_held, w2) = gil_scoped_acquire w1;
          (r1, w3) = run (import_attr ext ''neuropod.loader'' ''load_neuropod'')
                         (py (ImportAttr ''neuropod.loader'' ''load_neuropod'') w2)
      in case r1 of
           Inl e \<Rightarrow> (Inl e, destroy_members this (gil_scoped_acquire_end was_held w3))
         | Inr load_neuropod \<Rightarrow>
             (let w4 = own V_load_neuropod load_neuropod w3;
                  (r2, w5) =
                     run (import_attr ext ''neuropod.utils.dtype_utils'' ''maybe_convert_bindings_types'')
                         (py (ImportAttr ''neuropod.utils.dtype_utils'' ''maybe_convert_bindings_types'') w4)
              in case r2 of
                   Inl e \<Rightarrow>
                     (Inl e, destroy_members this
                        (gil_scoped_acquire_end was_held (drop_ref V_load_neuropod load_neuropod w5)))
                 | Inr conv \<Rightarrow>
                     (let this1 = this\<lparr>maybe_convert_bindings_types := Some conv\<rparr>;
                          w6 = own V_maybe_convert_bindings_types conv w5;
                          (r3, w7) = run (ensure_local ext path) (emit (EnsureLocal path) w6)
                      in case r3 of
                           Inl e \<Rightarrow>
                             (Inl e, destroy_members this1
                                (gil_scoped_acquire_end was_held
                                   (drop_ref V_load_neuropod load_neuropod w7)))
                         | Inr local_path \<Rightarrow>
                             (let (r4, w8) = run (call_load_neuropod ext load_neuropod local_path)
                                                 (py (CallLoad load_neuropod local_path) w7)
                              in case r4 of
                                   Inl e \<Rightarrow>
                                     (Inl e, destroy_members this1
                                        (gil_scoped_acquire_end was_held
                                           (drop_ref V_load_neuropod load_neuropod w8)))
                                 | Inr model \<Rightarrow>
                                     (Inr (this1\<lparr>neuropod := Some model\<rparr>),
                                      gil_scoped_acquire_end was_held
                                        (drop_ref V_load_neuropod load_neuropod
                                           (own V_neuropod model w8)))))))"

definition PythonBridge_dtor :: "'alloc PythonBridge \<Rightarrow> 's world \<Rightarrow> 's world" where
  "PythonBridge_dtor b w =
     (let (was_held, w1) = gil_scoped_acquire w;
          w2 = reset V_maybe_convert_bindings_types (maybe_convert_bindings_types b) w1;
          w3 = reset V_neuropod (neuropod b) w2
      in gil_scoped_acquire_end was_held w3)"

subsection \<open>\<^verbatim>\<open>SealedPythonValueMap\<close> (lines 119 to 139) and \<^verbatim>\<open>get_sealed_map\<close> (lines 141 to 144)\<close>

record 'a SealedPythonValueMap =
  out :: "'a pydict"

text \<open>
  A \<^verbatim>\<open>NeuropodValue\<close> is a tensor or something else;
  \<^verbatim>\<open>std::dynamic_pointer_cast<NeuropodTensor>\<close> yields an empty pointer for the latter.
\<close>

datatype 't NeuropodValue = NeuropodTensor 't | NotATensor

fun dynamic_pointer_cast :: "'t NeuropodValue \<Rightarrow> 't option" where
  "dynamic_pointer_cast (NeuropodTensor t) = Some t"
| "dynamic_pointer_cast NotATensor = None"

text \<open>The constructor: the member initialiser builds the dictionary; nothing else runs.\<close>

definition SealedPythonValueMap_ctor :: "'s world \<Rightarrow> 'a SealedPythonValueMap \<times> 's world" where
  "SealedPythonValueMap_ctor w = (\<lparr>out = []\<rparr>, hold V_out (py DictNew w))"

definition SealedPythonValueMap_dtor :: "'a SealedPythonValueMap \<Rightarrow> 's world \<Rightarrow> 's world" where
  "SealedPythonValueMap_dtor m w =
     (let (was_held, w1) = gil_scoped_acquire w
      in gil_scoped_acquire_end was_held (py (Drop V_out) w1))"

text \<open>
  \<^verbatim>\<open>seal\<close> (line 137). The left-hand side \<^verbatim>\<open>(*out)[name.c_str()]\<close> builds the key with
  \<^verbatim>\<open>py::str\<close> as soon as it is evaluated; the right-hand side converts the tensor; the
  assignment then stores the array. Either side may throw; when the side evaluated first
  throws, the other is not evaluated. Nothing is stored unless both succeed. Item assignment
  on a dictionary replaces the value of a key that is present and appends a new key
  otherwise.
\<close>

definition seal ::
  "('t, 'a, 'alloc, 's) collaborators \<Rightarrow> string \<Rightarrow> 't NeuropodValue \<Rightarrow> 'a SealedPythonValueMap
     \<Rightarrow> 's world \<Rightarrow> (error + 'a SealedPythonValueMap) \<times> 's world" where
  "seal ext name item m w =
     (let (was_held, w1) = gil_scoped_acquire w
      in if assign_rhs_first ext then
           (let w2 = py TensorToNumpy w1
            in case tensor_to_numpy ext (dynamic_pointer_cast item) of
                 Inl e \<Rightarrow> (Inl e, gil_scoped_acquire_end was_held w2)
               | Inr arr \<Rightarrow>
                   (let w3 = py (StrNew (c_str name)) w2
                    in case py_str ext (c_str name) of
                         Inl e \<Rightarrow> (Inl e, gil_scoped_acquire_end was_held w3)
                       | Inr key \<Rightarrow>
                           (Inr (m\<lparr>out := AList.update key arr (out m)\<rparr>),
                            gil_scoped_acquire_end was_held (py (DictSetItem key) w3))))
         else
           (let w2 = py (StrNew (c_str name)) w1
            in case py_str ext (c_str name) of
                 Inl e \<Rightarrow> (Inl e, gil_scoped_acquire_end was_held w2)
               | Inr key \<Rightarrow>
                   (let w3 = py TensorToNumpy w2
                    in case tensor_to_numpy ext (dynamic_pointer_cast item) of
                         Inl e \<Rightarrow> (Inl e, gil_scoped_acquire_end was_held w3)
                       | Inr arr \<Rightarrow>
                           (Inr (m\<lparr>out := AList.update key arr (out m)\<rparr>),
                            gil_scoped_acquire_end was_held (py (DictSetItem key) w3)))))"

definition get_sealed_map :: "'s world \<Rightarrow> 'a SealedPythonValueMap \<times> 's world" where
  "get_sealed_map w = SealedPythonValueMap_ctor w"

subsection \<open>\<^verbatim>\<open>infer_internal\<close> (lines 147 to 169)\<close>

text \<open>
  The argument arrives as a \<^verbatim>\<open>SealedValueMap\<close> and is cast with \<^verbatim>\<open>static_cast\<close>; the model
  takes the concrete type. The two local dictionaries are destroyed in reverse order of
  declaration before the scoped lock is.
\<close>

definition infer_internal ::
  "('t, 'a, 'alloc, 's) collaborators \<Rightarrow> 'alloc PythonBridge \<Rightarrow> 'a SealedPythonValueMap
     \<Rightarrow> 's world \<Rightarrow> (error + (string \<times> 't) list) \<times> 's world" where
  "infer_internal ext b inputs w =
     (let (was_held, w1) = gil_scoped_acquire w;
          model_inputs = out inputs
      in case neuropod b of
           None \<Rightarrow> (Inl null_pointer_dereference, gil_scoped_acquire_end was_held w1)
         | Some model \<Rightarrow>
             (let (r1, w2) = run (call_infer ext model model_inputs) (py (CallInfer model) w1)
              in case r1 of
                   Inl e \<Rightarrow> (Inl e, gil_scoped_acquire_end was_held w2)
                 | Inr model_outputs_raw \<Rightarrow>
                     (let w3 = hold V_model_outputs_raw w2
                      in case maybe_convert_bindings_types b of
                           None \<Rightarrow>
                             (Inl null_pointer_dereference,
                              gil_scoped_acquire_end was_held (py (Drop V_model_outputs_raw) w3))
                         | Some conv \<Rightarrow>
                             (let (r2, w4) = run (call_convert ext conv model_outputs_raw)
                                                 (py (CallConvert conv) w3)
                              in case r2 of
                                   Inl e \<Rightarrow>
                                     (Inl e, gil_scoped_acquire_end was_held
                                               (py (Drop V_model_outputs_raw) w4))
                                 | Inr model_outputs \<Rightarrow>
                                     (let w5 = py FromNumpyDict (hold V_model_outputs w4);
                                          w6 = py (Drop V_model_outputs_raw)
                                                 (py (Drop V_model_outputs) w5)
                                      in (from_numpy_dict (from_numpy ext) (tensor_allocator b)
                                            model_outputs,
                                          gil_scoped_acquire_end was_held w6))))))"

subsection \<open>The file in use\<close>

text \<open>
  The static initialiser of line 79 runs before any constructor of the file. An exception
  that leaves the initialiser of a static object ends the process (\<^verbatim>\<open>std::terminate\<close>), so
  no constructor runs after it.
\<close>

definition load_then_construct ::
  "platform \<Rightarrow> ('t, 'a, 'alloc, 's) collaborators \<Rightarrow> string \<Rightarrow> 'opt \<Rightarrow> string list \<Rightarrow> 's world
     \<Rightarrow> (error + 'alloc PythonBridge) \<times> 's world" where
  "load_then_construct pl ext path options python_path_additions w =
     (case gil_release pl w of
        (Inl e, w1) \<Rightarrow> (Inl e, w1)
      | (Inr tok, w1) \<Rightarrow> PythonBridge_ctor ext path options python_path_additions w1)"

text \<open>What an operation adds to the trace: the events after those of the world it started in.\<close>

definition events_since :: "'s world \<Rightarrow> 's world \<Rightarrow> event list" where
  "events_since w w' = drop (length (trace w)) (trace w')"

text \<open>
  The order in which the two members of a bridge take and give up their references, read
  off a trace.
\<close>

fun is_member :: "pyvar \<Rightarrow> bool" where
  "is_member V_maybe_convert_bindings_types = True"
| "is_member V_neuropod = True"
| "is_member _ = False"

fun created :: "event \<Rightarrow> pyvar list" where
  "created (Own v) = (if is_member v then [v] else [])"
| "created _ = []"

fun released :: "event \<Rightarrow> pyvar list" where
  "released (Py (Drop v) g) = (if is_member v then [v] else [])"
| "released _ = []"

definition creation_order :: "event list \<Rightarrow> pyvar list" where
  "creation_order tr = concat (map created tr)"

definition release_order :: "event list \<Rightarrow> pyvar list" where
  "release_order tr = concat (map released tr)"

text \<open>
  A stretch of the trace is locked when every interpreter operation in it was made with the
  GIL held by the calling thread.
\<close>

fun locked_event :: "event \<Rightarrow> bool" where
  "locked_event (Py p g) = g"
| "locked_event _ = True"

definition locked :: "event list \<Rightarrow> bool" where
  "locked tr = list_all locked_event tr"

subsection \<open>Concrete processes and collaborators\<close>

text \<open>
  A process in which nothing has happened yet, a Linux build whose \<^verbatim>\<open>libpython\<close> is
  linked in, and one where the dynamic loader does not find it.
\<close>

definition fresh_process :: "nat world" where
  "fresh_process =
     \<lparr>environ = Map.empty, py_initialized = False, gil_held = False, owned = (\<lambda>h. 0),
      faulted = False, interp = 0, trace = []\<rparr>"

definition linux :: platform where
  "linux = \<lparr>apple = False, python_version = ''2.7'',
            dlopen_finds = (\<lambda>n. n = ''libpython2.7.so''), dlerror = []\<rparr>"

definition linux_unlinked :: platform where
  "linux_unlinked = \<lparr>apple = False, python_version = ''2.7'',
            dlopen_finds = (\<lambda>n. False), dlerror = ''libpython2.7.so: not loaded''\<rparr>"

text \<open>
  An interpreter that counts the calls made into it: the loader's entry point is object 1,
  the coercion helper object 2, the loaded model object 3; the model returns its inputs
  and the helper returns its argument. Every C string decodes to itself. Tensors and arrays
  are numbers.
\<close>

definition echo_model :: "(nat, nat, nat, nat) collaborators" where
  "echo_model =
     \<lparr>import_attr = (\<lambda>m a s. (if m = ''neuropod.loader'' then Inr 1 else Inr 2, Suc s)),
      call_load_neuropod = (\<lambda>f p s. (Inr 3, Suc s)),
      call_infer = (\<lambda>h d s. (Inr d, Suc s)),
      call_convert = (\<lambda>h d s. (Inr d, Suc s)),
      ensure_local = (\<lambda>p s. (Inr p, s)),
      py_str = (\<lambda>c. Inr c),
      tensor_to_numpy = (\<lambda>t. case t of None \<Rightarrow> Inl (runtime_error ''not a tensor'') | Some x \<Rightarrow> Inr x),
      from_numpy = (\<lambda>alloc k a. Inr a),
      default_allocator = 0,
      assign_rhs_first = True\<rparr>"

text \<open>The same interpreter, except that it decodes only 7-bit text.\<close>

definition ascii_only :: "(nat, nat, nat, nat) collaborators" where
  "ascii_only =
     echo_model\<lparr>py_str := (\<lambda>c. if list_all (\<lambda>ch. of_char ch < (128::nat)) c then Inr c
                               else Inl (runtime_error ''Could not allocate string object!''))\<rparr>"

definition broken_package :: "(nat, nat, nat, nat) collaborators" where
  "broken_package =
     echo_model\<lparr>call_load_neuropod := (\<lambda>f p s. (Inl (error_already_set ''ValueError''), Suc s))\<rparr>"

text \<open>
  The process once the backend is loaded on Linux, the bridge that the constructor builds
  there from the counting interpreter, and that construction itself.
\<close>

definition started_process :: "nat world" where
  "started_process = snd (gil_release linux fresh_process)"

definition echo_bridge :: "nat PythonBridge" where
  "echo_bridge = \<lparr>neuropod_path = ''/models/m'', tensor_allocator = 0,
                   neuropod = Some 3, maybe_convert_bindings_types = Some 2\<rparr>"

definition echo_construction :: "(error + nat PythonBridge) \<times> nat world" where
  "echo_construction = PythonBridge_ctor echo_model ''/models/m'' () [''/deps''] started_process"

section \<open>Properties\<close>

subsection \<open>C strings\<close>

lemma c_str_cstring: "cstring s \<Longrightarrow> c_str s = s"
  by (auto simp: c_str_def cstring_def takeWhile_eq_all_conv)

lemma cstring_append: "cstring (xs @ ys) = (cstring xs \<and> cstring ys)"
  by (auto simp: cstring_def)

lemma cstring_dirs: "\<forall>d\<in>set ps. cstring d \<Longrightarrow> cstring (concat (map (\<lambda>dir. dir @ '':'') ps))"
  by (induction ps) (auto simp: cstring_def)

lemma cstring_stream:
  "\<forall>d\<in>set ps. cstring d \<Longrightarrow> (\<forall>v. ex = Some v \<longrightarrow> cstring v) \<Longrightarrow> cstring (python_path_stream ps ex)"
  by (cases ex) (auto simp: python_path_stream_def cstring_append cstring_dirs cstring_def)

subsection \<open>The search path\<close>

text \<open>
  C3. Whatever \<^verbatim>\<open>PYTHONPATH\<close> held before (a value or nothing), after \<^verbatim>\<open>set_python_path\<close>
  with a first list and then with a second list the variable holds the directories of the
  second call, then those of the first call, each followed by a colon, then the value it
  held at the start. Directory names and environment values are C strings (no NUL byte);
  the lists need not even be disjoint.
\<close>

theorem set_python_path_twice:
  assumes dirs: "\<forall>d \<in> set first_paths \<union> set second_paths. cstring d"
      and orig: "\<forall>v. environ w ''PYTHONPATH'' = Some v \<longrightarrow> cstring v"
  shows "environ (set_python_path second_paths (set_python_path first_paths w)) ''PYTHONPATH'' =
           Some (concat (map (\<lambda>dir. dir @ '':'') second_paths) @
                 concat (map (\<lambda>dir. dir @ '':'') first_paths) @
                 (case environ w ''PYTHONPATH'' of None \<Rightarrow> [] | Some v \<Rightarrow> v))"
proof -
  let ?s1 = "python_path_stream first_paths (environ w ''PYTHONPATH'')"
  have c1: "cstring ?s1" using dirs orig by (intro cstring_stream) auto
  have e1: "environ (set_python_path first_paths w) ''PYTHONPATH'' = Some ?s1"
    by (simp add: set_python_path_def c_str_cstring [OF c1])
  have c2: "cstring (python_path_stream second_paths (Some ?s1))"
    using dirs c1 by (intro cstring_stream) auto
  show ?thesis
    by (simp add: set_python_path_def [of second_paths] e1 c_str_cstring [OF c2])
       (simp add: python_path_stream_def)
qed

theorem set_python_path_twice_witness:
  "environ (set_python_path [''/c''] (set_python_path [''/a'', ''/b'']
      (fresh_process\<lparr>environ := [''PYTHONPATH'' \<mapsto> ''/usr/lib'']\<rparr>))) ''PYTHONPATH'' =
   Some ''/c:/a:/b:/usr/lib''"
proof -
  let ?w = "fresh_process\<lparr>environ := [''PYTHONPATH'' \<mapsto> ''/usr/lib'']\<rparr>"
  have dirs: "\<forall>d \<in> set [''/a'', ''/b''] \<union> set [''/c'']. cstring d"
    by (simp add: cstring_def)
  have orig: "\<forall>v. environ ?w ''PYTHONPATH'' = Some v \<longrightarrow> cstring v"
    by (simp add: cstring_def)
  show ?thesis
    using set_python_path_twice [OF dirs orig] by simp
qed

text \<open>
  C10. Every directory is written with a colon after it. With no \<^verbatim>\<open>PYTHONPATH\<close> in the
  environment the value written is exactly the directories with their colons, so it ends
  in a colon after the last directory; with an empty list the variable is set to the empty
  string, not left unset.
\<close>

theorem set_python_path_trailing_separator:
  assumes unset: "environ w ''PYTHONPATH'' = None"
      and dirs: "\<forall>d \<in> set paths. cstring d"
  shows "environ (set_python_path paths w) ''PYTHONPATH'' = Some (concat (map (\<lambda>dir. dir @ '':'') paths))
       \<and> (paths \<noteq> [] \<longrightarrow> environ (set_python_path paths w) ''PYTHONPATH'' =
             Some (concat (map (\<lambda>dir. dir @ '':'') (butlast paths)) @ last paths @ '':''))
       \<and> environ (set_python_path [] w) ''PYTHONPATH'' = Some []"
proof -
  have c: "cstring (python_path_stream paths None)"
    using dirs by (intro cstring_stream) auto
  have v: "environ (set_python_path paths w) ''PYTHONPATH'' = Some (concat (map (\<lambda>dir. dir @ '':'') paths))"
    using c_str_cstring [OF c] by (simp add: set_python_path_def unset python_path_stream_def)
  have l: "paths \<noteq> [] \<Longrightarrow> concat (map (\<lambda>dir. dir @ '':'') paths) =
             concat (map (\<lambda>dir. dir @ '':'') (butlast paths)) @ last paths @ '':''"
  proof -
    assume "paths \<noteq> []"
    then have "paths = butlast paths @ [last paths]" by simp
    then have "concat (map (\<lambda>dir. dir @ '':'') paths) =
               concat (map (\<lambda>dir. dir @ '':'') (butlast paths @ [last paths]))" by simp
    then show ?thesis by simp
  qed
  have e: "environ (set_python_path [] w) ''PYTHONPATH'' = Some []"
    by (simp add: set_python_path_def unset python_path_stream_def c_str_def)
  show ?thesis using v l e by simp
qed

theorem set_python_path_trailing_separator_witness:
  "environ (set_python_path [''/a'', ''/b''] fresh_process) ''PYTHONPATH'' = Some ''/a:/b:''
   \<and> environ (set_python_path [] fresh_process) ''PYTHONPATH'' = Some []"
proof -
  have unset: "environ fresh_process ''PYTHONPATH'' = None"
    by (simp add: fresh_process_def)
  have dirs: "\<forall>d \<in> set [''/a'', ''/b'']. cstring d"
    by (simp add: cstring_def)
  show ?thesis
    using set_python_path_trailing_separator [OF unset dirs] by simp
qed

subsection \<open>Starting the interpreter\<close>

lemma start_interpreter_result:
  "start_interpreter w =
     (Inr (Some Gil_scoped_release),
      (use_virtualenv w)\<lparr>py_initialized := True, gil_held := False,
         trace := trace w @ [InitializeInterpreter, GilRelease]\<rparr>)"
  by (cases "environ w ''VIRTUAL_ENV''")
     (simp_all add: start_interpreter_def make_gil_scoped_release_def initialize_interpreter_def
        use_virtualenv_def emit_def)

text \<open>
  C7. When the interpreter is already running, \<^verbatim>\<open>maybe_initialize\<close> returns the empty
  pointer and leaves the world as it was: no \<^verbatim>\<open>dlopen\<close>, no change to the environment
  (\<^verbatim>\<open>PYTHONHOME\<close> included), no second start of the interpreter, no release of the lock.
\<close>

theorem maybe_initialize_noop:
  "py_initialized w \<Longrightarrow> maybe_initialize pl w = (Inr None, w)"
  by (simp add: maybe_initialize_def)

theorem maybe_initialize_noop_witness:
  "maybe_initialize linux (fresh_process\<lparr>py_initialized := True, gil_held := True\<rparr>) =
     (Inr None, fresh_process\<lparr>py_initialized := True, gil_held := True\<rparr>)"
proof -
  have running: "py_initialized (fresh_process\<lparr>py_initialized := True, gil_held := True\<rparr>)"
    by simp
  show ?thesis
    using maybe_initialize_noop [OF running] by simp
qed

text \<open>
  C8. In a process whose interpreter is not running, on a build other than Apple's: when
  \<^verbatim>\<open>dlopen\<close> does not find the library, \<^verbatim>\<open>maybe_initialize\<close> throws the error with the
  message of line 58, the interpreter is not started, the environment is untouched, and no
  constructor runs. In every other case initialisation cannot fail: it starts the
  interpreter, gives the lock up and returns the token, whether or not \<^verbatim>\<open>VIRTUAL_ENV\<close>
  is set.
\<close>

theorem promotion_failure_is_fatal:
  assumes fresh: "\<not> py_initialized w"
  shows "(\<not> apple pl \<and> \<not> dlopen_finds pl (PYTHON_LIB_NAME pl) \<longrightarrow>
            maybe_initialize pl w =
              (Inl (runtime_error
                     (''Failed to promote libpython to RTLD_GLOBAL. Error from dlopen: '' @ dlerror pl)),
               w\<lparr>trace := trace w @ [Dlopen (PYTHON_LIB_NAME pl)]\<rparr>)
          \<and> load_then_construct pl ext path options additions w =
              (Inl (runtime_error
                     (''Failed to promote libpython to RTLD_GLOBAL. Error from dlopen: '' @ dlerror pl)),
               w\<lparr>trace := trace w @ [Dlopen (PYTHON_LIB_NAME pl)]\<rparr>))
       \<and> (apple pl \<or> dlopen_finds pl (PYTHON_LIB_NAME pl) \<longrightarrow>
            (\<exists>w'. maybe_initialize pl w = (Inr (Some Gil_scoped_release), w')
                  \<and> py_initialized w' \<and> \<not> gil_held w'))"
  using fresh
  by (auto simp: maybe_initialize_def load_then_construct_def gil_release_def promotion_error_def
        emit_def start_interpreter_result Let_def)

theorem promotion_failure_is_fatal_witness:
  "maybe_initialize linux_unlinked fresh_process =
     (Inl (runtime_error
        ''Failed to promote libpython to RTLD_GLOBAL. Error from dlopen: libpython2.7.so: not loaded''),
      fresh_process\<lparr>trace := [Dlopen ''libpython2.7.so'']\<rparr>)
   \<and> fst (load_then_construct linux_unlinked echo_model ''/models/m'' () [] fresh_process) =
       Inl (runtime_error
        ''Failed to promote libpython to RTLD_GLOBAL. Error from dlopen: libpython2.7.so: not loaded'')
   \<and> fst (maybe_initialize linux fresh_process) = Inr (Some Gil_scoped_release)"
proof -
  have fresh: "\<not> py_initialized fresh_process"
    by (simp add: fresh_process_def)
  have missing: "\<not> apple linux_unlinked \<and> \<not> dlopen_finds linux_unlinked (PYTHON_LIB_NAME linux_unlinked)"
    by (simp add: linux_unlinked_def)
  have found: "apple linux \<or> dlopen_finds linux (PYTHON_LIB_NAME linux)"
    by (simp add: linux_def PYTHON_LIB_NAME_def)
  have name: "PYTHON_LIB_NAME linux_unlinked = ''libpython2.7.so''"
    by (simp add: linux_unlinked_def PYTHON_LIB_NAME_def)
  have msg: "dlerror linux_unlinked = ''libpython2.7.so: not loaded''"
    by (simp add: linux_unlinked_def)
  have tr: "trace fresh_process = []"
    by (simp add: fresh_process_def)
  show ?thesis
    using promotion_failure_is_fatal [OF fresh, of linux_unlinked echo_model "''/models/m''" "()" "[]"]
          promotion_failure_is_fatal [OF fresh, of linux echo_model "''/models/m''" "()" "[]"]
          missing found
    by (auto simp: name msg tr)
qed

subsection \<open>Sealed input maps\<close>

lemmas world_ops =
  run_def py_def emit_def own_def hold_def drop_ref_def reset_def destroy_members_def
  gil_scoped_acquire_def gil_scoped_acquire_end_def

lemma set_python_path_frame [simp]:
  "interp (set_python_path ps w) = interp w"
  "trace (set_python_path ps w) = trace w"
  "owned (set_python_path ps w) = owned w"
  "faulted (set_python_path ps w) = faulted w"
  "gil_held (set_python_path ps w) = gil_held w"
  "py_initialized (set_python_path ps w) = py_initialized w"
  by (simp_all add: set_python_path_def)

lemma seal_result:
  assumes "tensor_to_numpy ext (dynamic_pointer_cast item) = Inr arr"
      and "py_str ext (c_str name) = Inr key"
  shows "fst (seal ext name item m w) = Inr (m\<lparr>out := AList.update key arr (out m)\<rparr>)"
    and "events_since w (snd (seal ext name item m w)) =
           (if assign_rhs_first ext
            then [GilAcquire, Py TensorToNumpy True, Py (StrNew (c_str name)) True,
                  Py (DictSetItem key) True, GilRelease]
            else [GilAcquire, Py (StrNew (c_str name)) True, Py TensorToNumpy True,
                  Py (DictSetItem key) True, GilRelease])"
  using assms
  by (simp_all add: seal_def Let_def events_since_def gil_scoped_acquire_def
        gil_scoped_acquire_end_def py_def emit_def)

lemma seal_success_cases:
  assumes "seal ext name item m w = (Inr m', w')"
  shows "\<exists>arr key. tensor_to_numpy ext (dynamic_pointer_cast item) = Inr arr
                 \<and> py_str ext (c_str name) = Inr key
                 \<and> m' = m\<lparr>out := AList.update key arr (out m)\<rparr>"
  using assms
  by (auto simp: seal_def Let_def gil_scoped_acquire_def split: if_splits sum.splits)

lemma seal_key_error:
  assumes "py_str ext (c_str name) = Inl e"
      and "tensor_to_numpy ext (dynamic_pointer_cast item) = Inr arr"
  shows "fst (seal ext name item m w) = Inl e"
  using assms
  by (simp add: seal_def Let_def gil_scoped_acquire_def)

lemma seal_conversion_error:
  assumes "tensor_to_numpy ext (dynamic_pointer_cast item) = Inl e"
      and "py_str ext (c_str name) = Inr key"
  shows "fst (seal ext name item m w) = Inl e"
  using assms
  by (simp add: seal_def Let_def gil_scoped_acquire_def)

lemma get_sealed_map_result:
  "get_sealed_map w = (\<lparr>out = []\<rparr>, w\<lparr>trace := trace w @ [Py DictNew (gil_held w), Own V_out]\<rparr>)"
  by (simp add: get_sealed_map_def SealedPythonValueMap_ctor_def hold_def py_def emit_def)

lemma seal_keeps_keys_distinct:
  assumes "distinct (map fst (out m))" and "seal ext name item m w = (Inr m', w')"
  shows "distinct (map fst (out m'))"
  using seal_success_cases [OF assms(2)] assms(1)
  by (auto simp: distinct_update)

lemma one_entry_after_update:
  "distinct (map fst d) \<Longrightarrow> length (filter (\<lambda>kv. fst kv = k) (AList.update k v d)) = 1"
proof (induction d)
  case Nil
  then show ?case by simp
next
  case (Cons p d)
  show ?case
  proof (cases "fst p = k")
    case True
    with Cons.prems have "k \<notin> fst ` set d" by auto
    then have "filter (\<lambda>kv. fst kv = k) d = []"
      by (auto simp: filter_empty_conv)
    with True show ?thesis by simp
  next
    case False
    with Cons show ?thesis by simp
  qed
qed

text \<open>
  C6. Take a sealed map (the keys of its dictionary are distinct, as those of every
  dictionary are; see \<open>seal_keeps_keys_distinct\<close>), a name under which a tensor has
  just been sealed, and a second tensor that converts. Sealing the second tensor under the
  same name succeeds: the collision raises nothing. Afterwards the dictionary has exactly
  one entry under the key of that name (the Python string made from \<^verbatim>\<open>name.c_str()\<close>), it
  holds the array converted in the second call, and the second call has added no key.
\<close>

theorem seal_same_name_twice:
  assumes keys: "distinct (map fst (out m))"
      and sealed_once: "seal ext name item1 m w = (Inr m1, w1)"
      and second_ok: "tensor_to_numpy ext (dynamic_pointer_cast item2) = Inr a2"
  shows "\<exists>key m2 w2.
           py_str ext (c_str name) = Inr key
         \<and> seal ext name item2 m1 w1 = (Inr m2, w2)
         \<and> length (filter (\<lambda>kv. fst kv = key) (out m2)) = 1
         \<and> map_of (out m2) key = Some a2
         \<and> map fst (out m2) = map fst (out m1)"
proof -
  from seal_success_cases [OF sealed_once] obtain a1 key where
    key: "py_str ext (c_str name) = Inr key" and
    m1: "m1 = m\<lparr>out := AList.update key a1 (out m)\<rparr>"
    by blast
  let ?d1 = "AList.update key a1 (out m)"
  let ?m2 = "m1\<lparr>out := AList.update key a2 (out m1)\<rparr>"
  have res: "fst (seal ext name item2 m1 w1) = Inr ?m2"
    by (rule seal_result(1) [OF second_ok key])
  have s2: "seal ext name item2 m1 w1 = (Inr ?m2, snd (seal ext name item2 m1 w1))"
    using res by (simp add: prod_eq_iff)
  have one: "length (filter (\<lambda>kv. fst kv = key) (out ?m2)) = 1"
    using keys by (simp add: m1 one_entry_after_update)
  have val: "map_of (out ?m2) key = Some a2"
    by (simp add: update_conv')
  have same: "map fst (out ?m2) = map fst (out m1)"
    by (simp add: m1 update_keys)
  from key s2 one val same show ?thesis by blast
qed

theorem seal_same_name_twice_witness:
  "fst (seal echo_model ''x'' (NeuropodTensor 7) \<lparr>out = [(''y'', 1)]\<rparr> fresh_process) =
     Inr \<lparr>out = [(''y'', 1), (''x'', 7)]\<rparr>
   \<and> fst (seal echo_model ''x'' (NeuropodTensor 9) \<lparr>out = [(''y'', 1), (''x'', 7)]\<rparr>
           (snd (seal echo_model ''x'' (NeuropodTensor 7) \<lparr>out = [(''y'', 1)]\<rparr> fresh_process))) =
     Inr \<lparr>out = [(''y'', 1), (''x'', 9)]\<rparr>"
proof -
  let ?m = "\<lparr>out = [(''y'', 1::nat)]\<rparr>"
  let ?m1 = "\<lparr>out = [(''y'', 1::nat), (''x'', 7)]\<rparr>"
  let ?w1 = "snd (seal echo_model ''x'' (NeuropodTensor 7) ?m fresh_process)"
  have keys: "distinct (map fst (out ?m))"
    by simp
  have first_ok: "tensor_to_numpy echo_model (dynamic_pointer_cast (NeuropodTensor 7)) = Inr 7"
    by (simp add: echo_model_def)
  have second_ok: "tensor_to_numpy echo_model (dynamic_pointer_cast (NeuropodTensor 9)) = Inr 9"
    by (simp add: echo_model_def)
  have key: "py_str echo_model (c_str ''x'') = Inr ''x''"
    by (simp add: echo_model_def c_str_def)
  have r1: "fst (seal echo_model ''x'' (NeuropodTensor 7) ?m fresh_process) = Inr ?m1"
    using seal_result(1) [OF first_ok key, of ?m fresh_process] by simp
  have sealed_once: "seal echo_model ''x'' (NeuropodTensor 7) ?m fresh_process = (Inr ?m1, ?w1)"
    using r1 by (simp add: prod_eq_iff)
  from seal_same_name_twice [OF keys sealed_once second_ok]
  obtain k m2 w2 where
    k: "py_str echo_model (c_str ''x'') = Inr k" and
    s2: "seal echo_model ''x'' (NeuropodTensor 9) ?m1 ?w1 = (Inr m2, w2)" and
    val: "map_of (out m2) k = Some 9" and
    same: "map fst (out m2) = map fst (out ?m1)"
    by blast
  have kx: "k = ''x''"
    using k key by simp
  obtain d where d: "m2 = \<lparr>out = d\<rparr>"
    by (cases m2) simp
  from same d obtain v1 v2 where dv: "d = [(''y'', v1), (''x'', v2)]"
    by (auto simp: map_eq_Cons_conv)
  have "v2 = 9"
    using val by (simp add: d dv kx)
  moreover have "v1 = 1"
    using seal_result(1) [OF second_ok key, of ?m1 ?w1] s2 by (simp add: d dv)
  ultimately have "m2 = \<lparr>out = [(''y'', 1), (''x'', 9)]\<rparr>"
    by (simp add: d dv)
  with r1 s2 show ?thesis by simp
qed

text \<open>
  A name that the interpreter cannot decode is never sealed: with the interpreter that
  decodes only 7-bit text, sealing under the one-byte name \<open>0xFF\<close> raises and returns no map.
\<close>

lemma seal_undecodable_name:
  "fst (seal ascii_only [CHR 0xFF] (NeuropodTensor 7) \<lparr>out = []\<rparr> fresh_process) =
     Inl (runtime_error ''Could not allocate string object!'')"
proof -
  have bad: "py_str ascii_only (c_str [CHR 0xFF]) = Inl (runtime_error ''Could not allocate string object!'')"
    by (simp add: ascii_only_def echo_model_def c_str_def)
  have ok: "tensor_to_numpy ascii_only (dynamic_pointer_cast (NeuropodTensor 7)) = Inr 7"
    by (simp add: ascii_only_def echo_model_def)
  show ?thesis
    by (rule seal_key_error [OF bad ok])
qed

subsection \<open>Construction and destruction of the bridge\<close>

lemma started_process_eq:
  "started_process =
     \<lparr>environ = Map.empty, py_initialized = True, gil_held = False, owned = (\<lambda>h. 0),
      faulted = False, interp = 0,
      trace = [Dlopen ''libpython2.7.so'', InitializeInterpreter, GilRelease]\<rparr>"
  by (simp add: started_process_def gil_release_def maybe_initialize_def fresh_process_def linux_def
        PYTHON_LIB_NAME_def start_interpreter_def make_gil_scoped_release_def
        initialize_interpreter_def use_virtualenv_def emit_def Let_def)

lemma ctor_load_failure_world:
  assumes i1: "import_attr ext ''neuropod.loader'' ''load_neuropod'' (interp w) = (Inr lf, s1)"
      and i2: "import_attr ext ''neuropod.utils.dtype_utils'' ''maybe_convert_bindings_types'' s1 = (Inr conv, s2)"
      and el: "ensure_local ext path s2 = (Inr local_path, s3)"
      and ld: "call_load_neuropod ext lf local_path s3 = (Inl e, s4)"
  shows "PythonBridge_ctor ext path options additions w =
           (Inl e,
            (set_python_path additions w)\<lparr>interp := s4,
               trace := trace w @
                 [GilAcquire,
                  Py (ImportAttr ''neuropod.loader'' ''load_neuropod'') True,
                  Own V_load_neuropod,
                  Py (ImportAttr ''neuropod.utils.dtype_utils'' ''maybe_convert_bindings_types'') True,
                  Own V_maybe_convert_bindings_types,
                  EnsureLocal path,
                  Py (CallLoad lf local_path) True,
                  Py (Drop V_load_neuropod) True,
                  GilRelease,
                  Py (Drop V_maybe_convert_bindings_types) (gil_held w)]\<rparr>)"
  using i1 i2 el ld
  by (simp add: PythonBridge_ctor_def Let_def world_ops)

lemma ctor_success_result:
  assumes i1: "import_attr ext ''neuropod.loader'' ''load_neuropod'' (interp w) = (Inr lf, s1)"
      and i2: "import_attr ext ''neuropod.utils.dtype_utils'' ''maybe_convert_bindings_types'' s1 = (Inr conv, s2)"
      and el: "ensure_local ext path s2 = (Inr local_path, s3)"
      and ld: "call_load_neuropod ext lf local_path s3 = (Inr model, s4)"
  shows "fst (PythonBridge_ctor ext path options additions w) =
           Inr \<lparr>neuropod_path = path, tensor_allocator = default_allocator ext,
                neuropod = Some model, maybe_convert_bindings_types = Some conv\<rparr>"
    and "trace (snd (PythonBridge_ctor ext path options additions w)) =
           trace w @
             [GilAcquire,
              Py (ImportAttr ''neuropod.loader'' ''load_neuropod'') True,
              Own V_load_neuropod,
              Py (ImportAttr ''neuropod.utils.dtype_utils'' ''maybe_convert_bindings_types'') True,
              Own V_maybe_convert_bindings_types,
              EnsureLocal path,
              Py (CallLoad lf local_path) True,
              Own V_neuropod,
              Py (Drop V_load_neuropod) True,
              GilRelease]"
  using i1 i2 el ld
  by (simp_all add: PythonBridge_ctor_def Let_def world_ops)

lemma ctor_success_cases:
  assumes "PythonBridge_ctor ext path options additions w = (Inr b, w1)"
  shows "\<exists>lf s1 conv s2 local_path s3 model s4.
           import_attr ext ''neuropod.loader'' ''load_neuropod'' (interp w) = (Inr lf, s1)
         \<and> import_attr ext ''neuropod.utils.dtype_utils'' ''maybe_convert_bindings_types'' s1 = (Inr conv, s2)
         \<and> ensure_local ext path s2 = (Inr local_path, s3)
         \<and> call_load_neuropod ext lf local_path s3 = (Inr model, s4)"
  using assms
  by (auto simp: PythonBridge_ctor_def Let_def run_def py_def emit_def own_def hold_def
        gil_scoped_acquire_def
      split: prod.splits sum.splits)

lemma dtor_trace:
  assumes "neuropod b = Some model" and "maybe_convert_bindings_types b = Some conv"
  shows "trace (PythonBridge_dtor b w) =
           trace w @ [GilAcquire, Py (Drop V_maybe_convert_bindings_types) True,
                      Py (Drop V_neuropod) True, GilRelease]"
  using assms by (simp add: PythonBridge_dtor_def Let_def world_ops)

text \<open>
  C2. When the two imports and \<^verbatim>\<open>ensure_local\<close> succeed and the call of \<^verbatim>\<open>load_neuropod\<close>
  raises, the constructor ends with that very error; every reference it took is given back
  (the native side owns what it owned before, so neither a model handle nor a helper
  handle is retained); the clean-up releases the helper once, releases nothing for the
  model member that was never set, and raises no fault. The last event shows that the
  helper is released by the member clean-up, after the scoped lock of the body is gone.
\<close>

theorem construction_load_failure:
  assumes i1: "import_attr ext ''neuropod.loader'' ''load_neuropod'' (interp w) = (Inr lf, s1)"
      and i2: "import_attr ext ''neuropod.utils.dtype_utils'' ''maybe_convert_bindings_types'' s1 = (Inr conv, s2)"
      and el: "ensure_local ext path s2 = (Inr local_path, s3)"
      and ld: "call_load_neuropod ext lf local_path s3 = (Inl e, s4)"
  shows "fst (PythonBridge_ctor ext path options additions w) = Inl e
       \<and> owned (snd (PythonBridge_ctor ext path options additions w)) = owned w
       \<and> faulted (snd (PythonBridge_ctor ext path options additions w)) = faulted w
       \<and> release_order (events_since w (snd (PythonBridge_ctor ext path options additions w))) =
           [V_maybe_convert_bindings_types]
       \<and> events_since w (snd (PythonBridge_ctor ext path options additions w)) =
           [GilAcquire,
            Py (ImportAttr ''neuropod.loader'' ''load_neuropod'') True,
            Own V_load_neuropod,
            Py (ImportAttr ''neuropod.utils.dtype_utils'' ''maybe_convert_bindings_types'') True,
            Own V_maybe_convert_bindings_types,
            EnsureLocal path,
            Py (CallLoad lf local_path) True,
            Py (Drop V_load_neuropod) True,
            GilRelease,
            Py (Drop V_maybe_convert_bindings_types) (gil_held w)]"
  by (simp add: ctor_load_failure_world [OF i1 i2 el ld] events_since_def release_order_def)

theorem construction_load_failure_witness:
  "fst (PythonBridge_ctor broken_package ''/models/m'' () [''/deps''] started_process) =
     Inl (error_already_set ''ValueError'')
   \<and> owned (snd (PythonBridge_ctor broken_package ''/models/m'' () [''/deps''] started_process)) =
       owned started_process
   \<and> faulted (snd (PythonBridge_ctor broken_package ''/models/m'' () [''/deps''] started_process)) = False"
proof -
  have i1: "import_attr broken_package ''neuropod.loader'' ''load_neuropod'' (interp started_process) = (Inr 1, 1)"
    by (simp add: broken_package_def echo_model_def started_process_eq)
  have i2: "import_attr broken_package ''neuropod.utils.dtype_utils'' ''maybe_convert_bindings_types'' 1 = (Inr 2, 2)"
    by (simp add: broken_package_def echo_model_def)
  have el: "ensure_local broken_package ''/models/m'' 2 = (Inr ''/models/m'', 2)"
    by (simp add: broken_package_def echo_model_def)
  have ld: "call_load_neuropod broken_package 1 ''/models/m'' 2 = (Inl (error_already_set ''ValueError''), 3)"
    by (simp add: broken_package_def echo_model_def)
  show ?thesis
    using construction_load_failure [OF i1 i2 el ld, of "()" "[''/deps'']"]
    by (simp add: started_process_eq)
qed

lemma echo_construction_eq:
  "fst echo_construction = Inr echo_bridge"
  "events_since started_process (snd echo_construction) =
     [GilAcquire,
      Py (ImportAttr ''neuropod.loader'' ''load_neuropod'') True,
      Own V_load_neuropod,
      Py (ImportAttr ''neuropod.utils.dtype_utils'' ''maybe_convert_bindings_types'') True,
      Own V_maybe_convert_bindings_types,
      EnsureLocal ''/models/m'',
      Py (CallLoad 1 ''/models/m'') True,
      Own V_neuropod,
      Py (Drop V_load_neuropod) True,
      GilRelease]"
proof -
  have i1: "import_attr echo_model ''neuropod.loader'' ''load_neuropod'' (interp started_process) = (Inr 1, 1)"
    by (simp add: echo_model_def started_process_eq)
  have i2: "import_attr echo_model ''neuropod.utils.dtype_utils'' ''maybe_convert_bindings_types'' 1 = (Inr 2, 2)"
    by (simp add: echo_model_def)
  have el: "ensure_local echo_model ''/models/m'' 2 = (Inr ''/models/m'', 2)"
    by (simp add: echo_model_def)
  have ld: "call_load_neuropod echo_model 1 ''/models/m'' 2 = (Inr 3, 3)"
    by (simp add: echo_model_def)
  show "fst echo_construction = Inr echo_bridge"
    using ctor_success_result(1) [OF i1 i2 el ld, of "()" "[''/deps'']"]
    by (simp add: echo_construction_def echo_bridge_def echo_model_def)
  show "events_since started_process (snd echo_construction) =
     [GilAcquire,
      Py (ImportAttr ''neuropod.loader'' ''load_neuropod'') True,
      Own V_load_neuropod,
      Py (ImportAttr ''neuropod.utils.dtype_utils'' ''maybe_convert_bindings_types'') True,
      Own V_maybe_convert_bindings_types,
      EnsureLocal ''/models/m'',
      Py (CallLoad 1 ''/models/m'') True,
      Own V_neuropod,
      Py (Drop V_load_neuropod) True,
      GilRelease]"
    using ctor_success_result(2) [OF i1 i2 el ld, of "()" "[''/deps'']"]
    by (simp add: echo_construction_def events_since_def)
qed

text \<open>
  C5, as stated, fails: the claim says that the destructor releases the two handles in the
  reverse of the order in which the constructor created them. For the bridge built from the
  counting interpreter the two orders are the same, not reversed.
\<close>

theorem release_order_reverse_counterexample:
  "fst echo_construction = Inr echo_bridge
   \<and> release_order (events_since (snd echo_construction)
         (PythonBridge_dtor echo_bridge (snd echo_construction))) \<noteq>
       rev (creation_order (events_since started_process (snd echo_construction)))"
proof -
  have dt: "trace (PythonBridge_dtor echo_bridge (snd echo_construction)) =
        trace (snd echo_construction) @
          [GilAcquire, Py (Drop V_maybe_convert_bindings_types) True,
           Py (Drop V_neuropod) True, GilRelease]"
    by (rule dtor_trace) (simp_all add: echo_bridge_def)
  have "release_order (events_since (snd echo_construction)
          (PythonBridge_dtor echo_bridge (snd echo_construction))) =
        [V_maybe_convert_bindings_types, V_neuropod]"
    by (simp add: events_since_def release_order_def dt)
  moreover have "creation_order (events_since started_process (snd echo_construction)) =
        [V_maybe_convert_bindings_types, V_neuropod]"
    by (simp add: echo_construction_eq(2) creation_order_def)
  ultimately show ?thesis
    by (simp add: echo_construction_eq(1))
qed

text \<open>
  C5, amended. For every bridge the constructor returns: the constructor created the
  coercion helper first and the model second; the destructor, in whatever world it runs,
  takes the lock, releases the coercion helper, then the model, and gives the lock back; so
  the release order is the creation order itself.
\<close>

theorem destructor_releases_in_creation_order:
  assumes built: "PythonBridge_ctor ext path options additions w = (Inr b, w1)"
  shows "creation_order (events_since w w1) = [V_maybe_convert_bindings_types, V_neuropod]
       \<and> events_since w2 (PythonBridge_dtor b w2) =
           [GilAcquire, Py (Drop V_maybe_convert_bindings_types) True,
            Py (Drop V_neuropod) True, GilRelease]
       \<and> release_order (events_since w2 (PythonBridge_dtor b w2)) =
           creation_order (events_since w w1)"
proof -
  from ctor_success_cases [OF built] obtain lf s1 conv s2 local_path s3 model s4 where
    i1: "import_attr ext ''neuropod.loader'' ''load_neuropod'' (interp w) = (Inr lf, s1)" and
    i2: "import_attr ext ''neuropod.utils.dtype_utils'' ''maybe_convert_bindings_types'' s1 = (Inr conv, s2)" and
    el: "ensure_local ext path s2 = (Inr local_path, s3)" and
    ld: "call_load_neuropod ext lf local_path s3 = (Inr model, s4)"
    by blast
  have b: "b = \<lparr>neuropod_path = path, tensor_allocator = default_allocator ext,
                neuropod = Some model, maybe_convert_bindings_types = Some conv\<rparr>"
    using ctor_success_result(1) [OF i1 i2 el ld, of options additions] built by simp
  have c: "creation_order (events_since w w1) = [V_maybe_convert_bindings_types, V_neuropod]"
    using ctor_success_result(2) [OF i1 i2 el ld, of options additions] built
    by (simp add: events_since_def creation_order_def)
  have dt: "trace (PythonBridge_dtor b w2) =
        trace w2 @ [GilAcquire, Py (Drop V_maybe_convert_bindings_types) True,
                    Py (Drop V_neuropod) True, GilRelease]"
    by (rule dtor_trace) (simp_all add: b)
  have d: "events_since w2 (PythonBridge_dtor b w2) =
           [GilAcquire, Py (Drop V_maybe_convert_bindings_types) True,
            Py (Drop V_neuropod) True, GilRelease]"
    by (simp add: events_since_def dt)
  show ?thesis
    by (simp add: c d release_order_def)
qed

theorem destructor_releases_in_creation_order_witness:
  "creation_order (events_since started_process (snd echo_construction)) =
     [V_maybe_convert_bindings_types, V_neuropod]
   \<and> release_order (events_since (snd echo_construction)
        (PythonBridge_dtor echo_bridge (snd echo_construction))) =
     [V_maybe_convert_bindings_types, V_neuropod]"
proof -
  have built: "PythonBridge_ctor echo_model ''/models/m'' () [''/deps''] started_process =
                 (Inr echo_bridge, snd echo_construction)"
    using echo_construction_eq(1) by (simp add: echo_construction_def prod_eq_iff)
  show ?thesis
    using destructor_releases_in_creation_order [OF built, of "snd echo_construction"]
    by (simp add: release_order_def)
qed

subsection \<open>Inference\<close>

lemma from_numpy_dict_entries:
  "from_numpy_dict f alloc d = Inr ts \<Longrightarrow>
     list_all2 (\<lambda>(k, a) (k', t). k' = k \<and> f alloc k a = Inr t) d ts"
proof (induction d arbitrary: ts)
  case Nil
  then show ?case by simp
next
  case (Cons p d)
  obtain k a where p: "p = (k, a)" by (cases p)
  from Cons.prems p obtain t ts' where
    t: "f alloc k a = Inr t" and rest: "from_numpy_dict f alloc d = Inr ts'" and ts: "ts = (k, t) # ts'"
    by (auto split: sum.splits)
  from Cons.IH [OF rest] t p ts show ?case by simp
qed

text \<open>
  C4. For a bridge that holds its two handles and a call in which no step raises,
  \<^verbatim>\<open>infer_internal\<close> does exactly this, in this order: takes the lock; calls the model's
  \<^verbatim>\<open>infer\<close> on the sealed dictionary; calls the coercion helper once, on the whole raw
  result; converts the coerced dictionary with the bridge's allocator, entry by entry;
  destroys its two local dictionaries; gives the lock back; returns the converted entries.
\<close>

theorem infer_internal_steps:
  assumes model: "neuropod b = Some model"
      and helper: "maybe_convert_bindings_types b = Some conv"
      and inferred: "call_infer ext model (out inputs) (interp w) = (Inr raw, s1)"
      and coerced: "call_convert ext conv raw s1 = (Inr cooked, s2)"
      and converted: "from_numpy_dict (from_numpy ext) (tensor_allocator b) cooked = Inr outputs"
  shows "infer_internal ext b inputs w =
           (Inr outputs,
            w\<lparr>interp := s2,
              trace := trace w @
                [GilAcquire,
                 Py (CallInfer model) True,
                 Own V_model_outputs_raw,
                 Py (CallConvert conv) True,
                 Own V_model_outputs,
                 Py FromNumpyDict True,
                 Py (Drop V_model_outputs) True,
                 Py (Drop V_model_outputs_raw) True,
                 GilRelease]\<rparr>)
       \<and> list_all2 (\<lambda>(k, a) (k', t). k' = k \<and> from_numpy ext (tensor_allocator b) k a = Inr t)
            cooked outputs"
  using model helper inferred coerced converted from_numpy_dict_entries [OF converted]
  by (simp add: infer_internal_def Let_def world_ops)

theorem infer_internal_steps_witness:
  "infer_internal echo_model echo_bridge \<lparr>out = [(''x'', 7), (''y'', 8)]\<rparr> started_process =
     (Inr [(''x'', 7), (''y'', 8)],
      started_process\<lparr>interp := 2,
        trace := trace started_process @
          [GilAcquire, Py (CallInfer 3) True, Own V_model_outputs_raw, Py (CallConvert 2) True,
           Own V_model_outputs, Py FromNumpyDict True, Py (Drop V_model_outputs) True,
           Py (Drop V_model_outputs_raw) True, GilRelease]\<rparr>)"
proof -
  let ?inputs = "\<lparr>out = [(''x'', 7::nat), (''y'', 8)]\<rparr>"
  have model: "neuropod echo_bridge = Some 3"
    by (simp add: echo_bridge_def)
  have helper: "maybe_convert_bindings_types echo_bridge = Some 2"
    by (simp add: echo_bridge_def)
  have inferred: "call_infer echo_model 3 (out ?inputs) (interp started_process) =
                    (Inr [(''x'', 7), (''y'', 8)], 1)"
    by (simp add: echo_model_def started_process_eq)
  have coerced: "call_convert echo_model 2 [(''x'', 7), (''y'', 8)] 1 = (Inr [(''x'', 7), (''y'', 8)], 2)"
    by (simp add: echo_model_def)
  have converted: "from_numpy_dict (from_numpy echo_model) (tensor_allocator echo_bridge)
                     [(''x'', 7), (''y'', 8)] = Inr [(''x'', 7), (''y'', 8)]"
    by (simp add: echo_model_def)
  show ?thesis
    using infer_internal_steps [OF model helper inferred coerced converted]
    by simp
qed

subsection \<open>Where the lock is held\<close>

text \<open>
  Sealing, inference, both destructors and a construction that succeeds make every
  interpreter operation with the lock held; \<^verbatim>\<open>get_sealed_map\<close> does so only when its caller
  already holds the lock.
\<close>

lemma seal_locked:
  "locked (events_since w (snd (seal ext name item m w)))"
  by (cases "tensor_to_numpy ext (dynamic_pointer_cast item)"; cases "py_str ext (c_str name)")
     (simp_all add: seal_def Let_def events_since_def locked_def gil_scoped_acquire_def
        gil_scoped_acquire_end_def py_def emit_def)

lemma SealedPythonValueMap_dtor_locked:
  "locked (events_since w (SealedPythonValueMap_dtor m w))"
  by (simp add: SealedPythonValueMap_dtor_def events_since_def locked_def Let_def world_ops)

lemma PythonBridge_dtor_locked:
  "locked (events_since w (PythonBridge_dtor b w))"
  by (cases "neuropod b"; cases "maybe_convert_bindings_types b")
     (simp_all add: PythonBridge_dtor_def events_since_def locked_def Let_def world_ops)

lemma infer_internal_locked:
  "locked (events_since w (snd (infer_internal ext b inputs w)))"
  by (auto simp: infer_internal_def events_since_def locked_def Let_def world_ops
      split: option.splits sum.splits prod.splits)

lemma ctor_success_locked:
  assumes "PythonBridge_ctor ext path options additions w = (Inr b, w1)"
  shows "locked (events_since w w1)"
proof -
  from ctor_success_cases [OF assms] obtain lf s1 conv s2 local_path s3 model s4 where
    i1: "import_attr ext ''neuropod.loader'' ''load_neuropod'' (interp w) = (Inr lf, s1)" and
    i2: "import_attr ext ''neuropod.utils.dtype_utils'' ''maybe_convert_bindings_types'' s1 = (Inr conv, s2)" and
    el: "ensure_local ext path s2 = (Inr local_path, s3)" and
    ld: "call_load_neuropod ext lf local_path s3 = (Inr model, s4)"
    by blast
  show ?thesis
    using ctor_success_result(2) [OF i1 i2 el ld, of options additions] assms
    by (simp add: events_since_def locked_def)
qed

lemma get_sealed_map_locked_iff:
  "locked (events_since w (snd (get_sealed_map w))) = gil_held w"
  by (simp add: get_sealed_map_result events_since_def locked_def)

text \<open>
  C1. The claim asks that the calling thread holds the GIL during every interpreter
  operation of the bridge, the creation of the dictionary in \<^verbatim>\<open>get_sealed_map\<close> among
  them. The constructor of \<^verbatim>\<open>SealedPythonValueMap\<close> builds its \<^verbatim>\<open>py::dict\<close> without a
  \<^verbatim>\<open>py::gil_scoped_acquire\<close>. In a process whose interpreter was started by line 79 the
  thread has given the lock up, and the dictionary is created without it.
\<close>

theorem get_sealed_map_without_lock:
  "py_initialized started_process
   \<and> \<not> gil_held started_process
   \<and> events_since started_process
        (snd (get_sealed_map started_process :: nat SealedPythonValueMap \<times> nat world)) =
       [Py DictNew False, Own V_out]"
  by (simp add: get_sealed_map_result events_since_def) (simp add: started_process_eq)

end
